theory Spec2Isabelle
  imports Main
begin

text \<open>
  The pace-duration utilities of the course-pacing editor: the conversion of calendar days to
  weeks and days (\<open>calendarDaysToPaceDuration\<close>, \<open>calculatePaceDuration\<close>), the weighting of
  item durations by item type (\<open>calculatePaceItemDuration\<close>), and the check of a pace against
  its budget of calendar days (\<open>isTimeToCompleteCalendarDaysValid\<close>,
  \<open>getTimeToCompleteCalendarDaysFromItemsDuration\<close>, \<open>getItemsDurationFromTimeToComplete\<close>).
  Each function is embedded as it is written in \<^verbatim>\<open>utils/utils\<close>; the properties follow the
  definitions.
\<close>

section \<open>JavaScript numbers on integers\<close>

text \<open>
  The pacing utilities (\<^verbatim>\<open>utils/utils\<close>) compute with day counts. A JavaScript number is
  an IEEE 754 double; one that holds an integer is modelled as that integer, a value of
  \<^typ>\<open>int\<close>. \<open>js_number n\<close> says that the integer \<open>n\<close> is a double: its magnitude fits in
  53 significant bits (every integer below \<open>2 ^ 53\<close> does; above, only the multiples of the
  power of two that the exponent leaves).
\<close>

function scale_down :: "int \<Rightarrow> int \<Rightarrow> nat" where
  "scale_down a b = (if b \<le> 0 \<or> a < 2 ^ 53 * b then 0 else Suc (scale_down a (2 * b)))"
  by pat_completeness auto
termination
  by (relation "measure (\<lambda>(a, b). nat (a - 2 ^ 53 * b + 1))") auto

function scale_up :: "int \<Rightarrow> int \<Rightarrow> nat" where
  "scale_up a b = (if a \<le> 0 \<or> 2 ^ 52 * b \<le> a then 0 else Suc (scale_up (2 * a) b))"
  by pat_completeness auto
termination
  by (relation "measure (\<lambda>(a, b). nat (2 ^ 52 * b - a))") auto

declare scale_down.simps [simp del] scale_up.simps [simp del]


text \<open>
  \<^verbatim>\<open>Math.floor(a / b)\<close> for integers \<open>a\<close> and \<open>b \<noteq> 0\<close>. The division is the division of
  doubles: the exact quotient is rounded to 53 significant bits, to the nearest double and to
  the even one of two nearest, and \<^verbatim>\<open>Math.floor\<close> rounds that double down to an integer.
  For a quotient \<open>\<bar>a\<bar> / \<bar>b\<bar>\<close> of at least \<open>2 ^ 53\<close>, \<open>scale_down\<close> counts the binary places
  the significand is shifted right; for a smaller one, \<open>scale_up\<close> counts the places it is
  shifted left, so that the scaled quotient lies between \<open>2 ^ 52\<close> and \<open>2 ^ 53\<close>.
  \<open>rne_div x y\<close> is the integer nearest to \<open>x / y\<close>, the even one at a tie. (A quotient of
  two integers that are doubles neither overflows nor, below 1, rounds to 1, so the exponent
  range plays no part in the floor.)
\<close>

definition rne_div :: "int \<Rightarrow> int \<Rightarrow> int" where
  "rne_div x y =
     (let k = x div y; r = x mod y
      in if 2 * r < y then k
         else if y < 2 * r then k + 1
         else if even k then k else k + 1)"

definition js_floor_div :: "int \<Rightarrow> int \<Rightarrow> int" where
  "js_floor_div a b =
     (if a = 0 \<or> b = 0 then 0
      else let n = scale_down \<bar>a\<bar> \<bar>b\<bar>
           in if 0 < n
              then sgn a * sgn b * rne_div \<bar>a\<bar> (\<bar>b\<bar> * 2 ^ n) * 2 ^ n
              else let u = scale_up \<bar>a\<bar> \<bar>b\<bar>
                   in (sgn a * sgn b * rne_div (\<bar>a\<bar> * 2 ^ u) \<bar>b\<bar>) div 2 ^ u)"

text \<open>
  \<^verbatim>\<open>a % b\<close> for integers \<open>a\<close> and \<open>b \<noteq> 0\<close> truncates, so the remainder has the sign of
  \<^verbatim>\<open>a\<close>; it is computed without rounding. Division by 0 is treated where it can occur, in
  \<open>js_floor_div_number\<close> and \<open>js_rem_number\<close> below.
\<close>

definition js_rem :: "int \<Rightarrow> int \<Rightarrow> int" where
  "js_rem a b = sgn a * (\<bar>a\<bar> mod \<bar>b\<bar>)"

section \<open>Duration converter\<close>

record PaceDuration =
  weeks :: int
  days :: int

text \<open>
  \<^verbatim>\<open>
  export const calendarDaysToPaceDuration = (calendarDays: number): PaceDuration => {
    return { weeks: Math.floor(calendarDays / 7), days: calendarDays % 7 }
  }
  \<close>
\<close>

definition calendarDaysToPaceDuration :: "int \<Rightarrow> PaceDuration" where
  "calendarDaysToPaceDuration calendarDays =
     \<lparr>weeks = js_floor_div calendarDays 7, days = js_rem calendarDays 7\<rparr>"

section \<open>Item duration weighting\<close>

text \<open>
  A \<^verbatim>\<open>CoursePaceItem\<close> is an object with a \<^verbatim>\<open>duration\<close>, a \<^verbatim>\<open>module_item_type\<close> and
  further fields (\<^verbatim>\<open>id\<close>, titles, positions, ...). The record is used as a scheme: the fields
  this file does not name live in the extension part, which a record update keeps, exactly as
  the object spread \<^verbatim>\<open>{...item, duration}\<close> does. The field \<^verbatim>\<open>id\<close> is called
  \<open>item_id\<close> here, since \<open>id\<close> is the identity function of HOL.
\<close>

record CoursePaceItem =
  item_id :: string
  duration :: int
  module_item_type :: string

text \<open>
  \<^verbatim>\<open>AssignmentWeightening\<close>: every entry is \<^verbatim>\<open>number | undefined\<close>; \<open>None\<close> is
  \<^verbatim>\<open>undefined\<close>.
\<close>

record AssignmentWeightening =
  assignment :: "int option"
  discussion :: "int option"
  quiz :: "int option"
  page :: "int option"

text \<open>
  \<^verbatim>\<open>
  const getDuration = (itemType: string): number | undefined => {
    switch (itemType) {
      case 'Assignment':      return assignmentWeightedDuration.assignment
      case 'DiscussionTopic': return assignmentWeightedDuration.discussion
      case 'Quizzes::Quiz':   return assignmentWeightedDuration.quiz
      case 'Page':            return assignmentWeightedDuration.page
      default:                return undefined
    }
  }
  \<close>
\<close>

definition getDuration :: "AssignmentWeightening \<Rightarrow> string \<Rightarrow> int option" where
  "getDuration assignmentWeightedDuration itemType =
     (if itemType = ''Assignment'' then assignment assignmentWeightedDuration
      else if itemType = ''DiscussionTopic'' then discussion assignmentWeightedDuration
      else if itemType = ''Quizzes::Quiz'' then quiz assignmentWeightedDuration
      else if itemType = ''Page'' then page assignmentWeightedDuration
      else None)"

text \<open>
  \<^verbatim>\<open>a || b\<close> on \<^verbatim>\<open>number | undefined\<close>: the left operand is returned when it is truthy;
  \<^verbatim>\<open>undefined\<close> and \<^verbatim>\<open>0\<close> are falsy.
\<close>

definition js_or :: "int option \<Rightarrow> int \<Rightarrow> int" where
  "js_or a b = (case a of None \<Rightarrow> b | Some v \<Rightarrow> if v = 0 then b else v)"

text \<open>
  \<^verbatim>\<open>
  return coursePaceItem.map(item => {
    const duration = getDuration(item.module_item_type) || item.duration
    return { ...item, duration }
  })
  \<close>
\<close>

definition calculatePaceItemDuration ::
  "'a CoursePaceItem_scheme list \<Rightarrow> AssignmentWeightening \<Rightarrow> 'a CoursePaceItem_scheme list"
where
  "calculatePaceItemDuration coursePaceItem assignmentWeightedDuration =
     map (\<lambda>item. item\<lparr>duration :=
                 js_or (getDuration assignmentWeightedDuration (module_item_type item))
                       (duration item)\<rparr>)
         coursePaceItem"

subsection \<open>The same function on an explicit store\<close>

text \<open>
  To say that the function builds a new sequence and leaves its arguments alone, objects and
  arrays are placed in a store: a list of cells, a reference being an index into it.
  Allocation appends a cell, so a fresh reference is the length of the store.
  \<^verbatim>\<open>Array.prototype.map\<close> reads the elements of the input array in order, calls the
  callback on each (the object literal \<^verbatim>\<open>{ ...item, duration }\<close> allocates a new object)
  and returns a newly allocated array of the results. A reference that does not point to a
  cell of the expected kind has no counterpart in the typed source; the model returns
  \<open>None\<close> there.
\<close>

type_synonym ref = nat

datatype 'a cell = Object "'a CoursePaceItem_scheme" | Array "ref list"

type_synonym 'a store = "'a cell list"

definition alloc :: "'a store \<Rightarrow> 'a cell \<Rightarrow> 'a store \<times> ref" where
  "alloc h c = (h @ [c], length h)"

definition deref :: "'a store \<Rightarrow> ref \<Rightarrow> 'a cell option" where
  "deref h r = (if r < length h then Some (h ! r) else None)"

fun map_callback ::
  "AssignmentWeightening \<Rightarrow> 'a store \<Rightarrow> ref list \<Rightarrow> ('a store \<times> ref list) option"
where
  "map_callback w h [] = Some (h, [])"
| "map_callback w h (r # rs) =
     (case deref h r of
        Some (Object item) \<Rightarrow>
          (let duration' = js_or (getDuration w (module_item_type item)) (duration item);
               (h1, r') = alloc h (Object (item\<lparr>duration := duration'\<rparr>))
           in case map_callback w h1 rs of
                None \<Rightarrow> None
              | Some (h2, rs') \<Rightarrow> Some (h2, r' # rs'))
      | _ \<Rightarrow> None)"

definition calculatePaceItemDuration_store ::
  "'a store \<Rightarrow> ref \<Rightarrow> AssignmentWeightening \<Rightarrow> ('a store \<times> ref) option"
where
  "calculatePaceItemDuration_store h coursePaceItem w =
     (case deref h coursePaceItem of
        Some (Array rs) \<Rightarrow>
          (case map_callback w h rs of
             None \<Rightarrow> None
           | Some (h', rs') \<Rightarrow> Some (alloc h' (Array rs')))
      | _ \<Rightarrow> None)"

definition object_at :: "'a store \<Rightarrow> ref \<Rightarrow> 'a CoursePaceItem_scheme option" where
  "object_at h r = (case deref h r of Some (Object item) \<Rightarrow> Some item | _ \<Rightarrow> None)"

definition array_at :: "'a store \<Rightarrow> ref \<Rightarrow> ref list option" where
  "array_at h r = (case deref h r of Some (Array rs) \<Rightarrow> Some rs | _ \<Rightarrow> None)"

definition read_items :: "'a store \<Rightarrow> ref \<Rightarrow> 'a CoursePaceItem_scheme list option" where
  "read_items h a =
     (case array_at h a of None \<Rightarrow> None | Some rs \<Rightarrow> those (map (object_at h) rs))"

section \<open>Dates\<close>

text \<open>
  Dates are values of the \<^verbatim>\<open>moment\<close> library. A moment is modelled as the number of
  milliseconds since 1970-01-01 00:00 on a time line where every day has 24 hours (no
  daylight-saving shifts), so \<open>day_of\<close> is the number of the calendar day. The operations
  the pacing utilities call are written out: \<^verbatim>\<open>startOf('day')\<close>, \<^verbatim>\<open>endOf('day')\<close>,
  \<^verbatim>\<open>add(n, 'days')\<close> and \<^verbatim>\<open>isAfter\<close>. \<open>date y m d\<close> is \<^verbatim>\<open>moment('y-m-d')\<close>, midnight
  of that day of the Gregorian calendar.
\<close>

type_synonym moment = int

definition msPerDay :: int where
  "msPerDay = 86400000"

definition day_of :: "moment \<Rightarrow> int" where
  "day_of m = m div msPerDay"

definition startOf_day :: "moment \<Rightarrow> moment" where
  "startOf_day m = day_of m * msPerDay"

definition endOf_day :: "moment \<Rightarrow> moment" where
  "endOf_day m = startOf_day m + msPerDay - 1"

definition add_days :: "int \<Rightarrow> moment \<Rightarrow> moment" where
  "add_days n m = m + n * msPerDay"

definition isAfter :: "moment \<Rightarrow> moment \<Rightarrow> bool" where
  "isAfter a b = (b < a)"

definition days_from_civil :: "int \<Rightarrow> int \<Rightarrow> int \<Rightarrow> int" where
  "days_from_civil y m d =
     (let y' = (if m \<le> 2 then y - 1 else y);
          era = y' div 400;
          yoe = y' - era * 400;
          doy = (153 * (if m > 2 then m - 3 else m + 9) + 2) div 5 + d - 1;
          doe = yoe * 365 + yoe div 4 - yoe div 100 + doy
      in era * 146097 + doe - 719468)"

definition date :: "int \<Rightarrow> int \<Rightarrow> int \<Rightarrow> moment" where
  "date y m d = days_from_civil y m d * msPerDay"

text \<open>
  \<^verbatim>\<open>moment(x)\<close> with \<^verbatim>\<open>x\<close> undefined is the current time, as is \<^verbatim>\<open>moment.max\<close> of an
  empty array. The current time is the argument \<open>now\<close> of every function that can reach one
  of the two. On a non-empty array \<^verbatim>\<open>moment.max\<close> starts from the first element and
  replaces its candidate by each later element that is after it.
\<close>

definition moment_of :: "moment \<Rightarrow> moment option \<Rightarrow> moment" where
  "moment_of now d = (case d of None \<Rightarrow> now | Some m \<Rightarrow> m)"

definition moment_max :: "moment \<Rightarrow> moment list \<Rightarrow> moment" where
  "moment_max now moments =
     (case moments of
        [] \<Rightarrow> now
      | m # rest \<Rightarrow> foldl (\<lambda>res x. if isAfter x res then x else res) m rest)"

text \<open>
  Modelled from the spec: \<^verbatim>\<open>DateHelpers.rawDaysBetweenInclusive\<close>
  (\<^verbatim>\<open>utils/date_stuff/date_helpers\<close>) is imported by the pacing utilities but is not among
  the sources. The specification calls it the day-counting primitive, the "inclusive day
  count between two dates", and defines a calendar day span as the "inclusive count of days
  between two dates". The time-selection component agrees: it shows the end date of a pace as
  \<^verbatim>\<open>start.add(time_to_complete_calendar_days - 1, 'days')\<close> and stores
  \<^verbatim>\<open>rawDaysBetweenInclusive(start, end)\<close> as \<^verbatim>\<open>time_to_complete_calendar_days\<close>.
\<close>

definition rawDaysBetweenInclusive :: "moment \<Rightarrow> moment \<Rightarrow> int" where
  "rawDaysBetweenInclusive startDate endDate = day_of endDate - day_of startDate + 1"

text \<open>
  \<^verbatim>\<open>
  export const calculatePaceDuration = (startDate: Moment, endDate: Moment): PaceDuration => {
    const planDays = DateHelpers.rawDaysBetweenInclusive(startDate, endDate)
    return calendarDaysToPaceDuration(planDays)
  }
  \<close>
\<close>

definition calculatePaceDuration :: "moment \<Rightarrow> moment \<Rightarrow> PaceDuration" where
  "calculatePaceDuration startDate endDate =
     (let planDays = rawDaysBetweenInclusive startDate endDate
      in calendarDaysToPaceDuration planDays)"

section \<open>Pace validator\<close>

text \<open>
  The fields of \<^verbatim>\<open>CoursePace\<close>, \<^verbatim>\<open>Module\<close> and \<^verbatim>\<open>BlackoutDate\<close> that the utilities
  read. \<^verbatim>\<open>start_date\<close> of a pace may be undefined (\<open>None\<close>). The two dates of a blackout
  interval are \<^verbatim>\<open>start_date\<close> and \<^verbatim>\<open>end_date\<close> in the source; they carry the prefix
  \<open>blackout_\<close> here because field names are global.
\<close>

record BlackoutDate =
  blackout_start_date :: moment
  blackout_end_date :: moment

record Module =
  items :: "CoursePaceItem list"

record CoursePace =
  start_date :: "moment option"
  time_to_complete_calendar_days :: int
  exclude_weekends :: bool
  selected_days_to_skip :: "string list"
  modules :: "Module list"

text \<open>
  The due-date calculator (\<^verbatim>\<open>PaceDueDatesCalculator.getDueDates\<close>) and the helpers
  \<^verbatim>\<open>DateHelpers.addDays\<close> and \<^verbatim>\<open>DateHelpers.daysBetween\<close> are called by the utilities
  but are not among the sources. The utilities are therefore modelled with these three
  collaborators as arguments, and their properties hold for every collaborator. A
  collaborator returns \<open>None\<close> when its call gives no result (it does not return); the caller
  then gives none either. \<^verbatim>\<open>getDueDates\<close> returns an object that maps item ids to due
  dates, modelled as the list of its entries; \<^verbatim>\<open>Object.values\<close> lists the dates.
\<close>

type_synonym PaceDueDates = "(string \<times> moment) list"

type_synonym getDueDates_fn =
  "CoursePaceItem list \<Rightarrow> bool \<Rightarrow> string list \<Rightarrow> BlackoutDate list \<Rightarrow> moment option
     \<Rightarrow> PaceDueDates option"

type_synonym addDays_fn =
  "moment \<Rightarrow> int \<Rightarrow> bool \<Rightarrow> string list \<Rightarrow> BlackoutDate list \<Rightarrow> moment option"

type_synonym daysBetween_fn =
  "moment \<Rightarrow> moment \<Rightarrow> bool \<Rightarrow> string list \<Rightarrow> BlackoutDate list \<Rightarrow> int option"

definition Object_values :: "PaceDueDates \<Rightarrow> moment list" where
  "Object_values paceDueDates = map snd paceDueDates"

text \<open>
  \<^verbatim>\<open>
  const paceDueDates = PaceDueDatesCalculator.getDueDates(
    coursePaceItem, coursePace.exclude_weekends, coursePace.selected_days_to_skip,
    blackoutDates, coursePace.start_date)
  const endDateValue = moment.max(Object.values(paceDueDates).map((x) => moment(x)))
  const startDateMoment = moment(coursePace.start_date).startOf('day')
  const calendarDays = DateHelpers.rawDaysBetweenInclusive(startDateMoment, endDateValue)
  return calendarDays <= coursePace.time_to_complete_calendar_days
  \<close>
\<close>

definition isTimeToCompleteCalendarDaysValid ::
  "getDueDates_fn \<Rightarrow> moment \<Rightarrow> CoursePace \<Rightarrow> CoursePaceItem list \<Rightarrow> BlackoutDate list
     \<Rightarrow> bool option"
where
  "isTimeToCompleteCalendarDaysValid getDueDates now coursePace coursePaceItem blackoutDates =
     (case getDueDates coursePaceItem (exclude_weekends coursePace)
             (selected_days_to_skip coursePace) blackoutDates (start_date coursePace) of
        None \<Rightarrow> None
      | Some paceDueDates \<Rightarrow>
          (let endDateValue = moment_max now (Object_values paceDueDates);
               startDateMoment = startOf_day (moment_of now (start_date coursePace));
               calendarDays = rawDaysBetweenInclusive startDateMoment endDateValue
           in Some (calendarDays \<le> time_to_complete_calendar_days coursePace)))"

text \<open>
  \<^verbatim>\<open>
  const coursePaceItems = coursePace.modules.flatMap((module) => module.items)
  const paceDueDates = PaceDueDatesCalculator.getDueDates(
    coursePaceItems, coursePace.exclude_weekends, coursePace.selected_days_to_skip,
    blackOutDates, coursePace.start_date)
  const endDateValue = moment.max(Object.values(paceDueDates).map((x) => moment(x)))
  const startDateMoment = moment(coursePace.start_date).startOf('day')
  return DateHelpers.rawDaysBetweenInclusive(startDateMoment, endDateValue) - 1
  \<close>
\<close>

definition getTimeToCompleteCalendarDaysFromItemsDuration ::
  "getDueDates_fn \<Rightarrow> moment \<Rightarrow> CoursePace \<Rightarrow> BlackoutDate list \<Rightarrow> int option"
where
  "getTimeToCompleteCalendarDaysFromItemsDuration getDueDates now coursePace blackOutDates =
     (let coursePaceItems = concat (map items (modules coursePace))
      in case getDueDates coursePaceItems (exclude_weekends coursePace)
                (selected_days_to_skip coursePace) blackOutDates (start_date coursePace) of
           None \<Rightarrow> None
         | Some paceDueDates \<Rightarrow>
             (let endDateValue = moment_max now (Object_values paceDueDates);
                  startDateMoment = startOf_day (moment_of now (start_date coursePace))
              in Some (rawDaysBetweenInclusive startDateMoment endDateValue - 1)))"

text \<open>
  The result of \<open>getItemsDurationFromTimeToComplete\<close> divides by \<^verbatim>\<open>itemsLength\<close>, which
  may be 0. JavaScript does not raise there: \<^verbatim>\<open>Math.floor(a / 0)\<close> is \<^verbatim>\<open>Infinity\<close>,
  \<^verbatim>\<open>-Infinity\<close> or \<^verbatim>\<open>NaN\<close> by the sign of \<^verbatim>\<open>a\<close>, and \<^verbatim>\<open>a % 0\<close> is \<^verbatim>\<open>NaN\<close>. The
  two fields of the result therefore range over \<open>number\<close>. The fields are \<^verbatim>\<open>duration\<close> and
  \<^verbatim>\<open>remainder\<close> in the source; \<open>duration\<close> is already the field of an item here.

  The dividend \<^verbatim>\<open>totalDuration\<close> is a number of days between two dates. A date of
  JavaScript lies within 100,000,000 days of 1970-01-01, so such a count is far below
  \<open>2 ^ 53\<close>, where \<^verbatim>\<open>Math.floor(a / b)\<close> is the exact quotient rounded down
  (\<open>js_floor_div_exact\<close> and \<open>js_floor_div_number_exact\<close> below). The quotient is therefore
  written as the integer division here.
\<close>

datatype number = Num int | Infinity | MinusInfinity | NaN

definition js_floor_div_number :: "int \<Rightarrow> int \<Rightarrow> number" where
  "js_floor_div_number a b =
     (if b = 0 then (if 0 < a then Infinity else if a < 0 then MinusInfinity else NaN)
      else Num (a div b))"

definition js_rem_number :: "int \<Rightarrow> int \<Rightarrow> number" where
  "js_rem_number a b = (if b = 0 then NaN else Num (js_rem a b))"

record ItemsDuration =
  items_duration :: number
  items_remainder :: number

text \<open>
  \<^verbatim>\<open>
  if (calendarDays < 1 || coursePace.start_date === undefined) {
    return { duration: 0, remainder: 0 }
  }
  const startDate = DateHelpers.addDays(coursePace.start_date, 1,
    coursePace.exclude_weekends, coursePace.selected_days_to_skip, blackOutDays)
  const endDate = moment(coursePace.start_date).add(calendarDays, 'days').endOf('day')
  if (moment(startDate).isAfter(endDate)) {
    return { duration: 0, remainder: 0 }
  }
  const totalDuration = DateHelpers.daysBetween(startDate, endDate,
    coursePace.exclude_weekends, coursePace.selected_days_to_skip, blackOutDays)
  const itemsDuration = Math.floor(totalDuration / itemsLength)
  return { duration: itemsDuration, remainder: totalDuration % itemsLength }
  \<close>
\<close>

definition getItemsDurationFromTimeToComplete ::
  "addDays_fn \<Rightarrow> daysBetween_fn \<Rightarrow> CoursePace \<Rightarrow> BlackoutDate list \<Rightarrow> int \<Rightarrow> int
     \<Rightarrow> ItemsDuration option"
where
  "getItemsDurationFromTimeToComplete addDays daysBetween coursePace blackOutDays
       calendarDays itemsLength =
     (if calendarDays < 1 then Some \<lparr>items_duration = Num 0, items_remainder = Num 0\<rparr>
      else case start_date coursePace of
        None \<Rightarrow> Some \<lparr>items_duration = Num 0, items_remainder = Num 0\<rparr>
      | Some start \<Rightarrow>
          (case addDays start 1 (exclude_weekends coursePace)
                  (selected_days_to_skip coursePace) blackOutDays of
             None \<Rightarrow> None
           | Some startDate \<Rightarrow>
               (let endDate = endOf_day (add_days calendarDays start)
                in if isAfter startDate endDate
                   then Some \<lparr>items_duration = Num 0, items_remainder = Num 0\<rparr>
                   else case daysBetween startDate endDate (exclude_weekends coursePace)
                               (selected_days_to_skip coursePace) blackOutDays of
                          None \<Rightarrow> None
                        | Some totalDuration \<Rightarrow>
                            (let itemsDuration = js_floor_div_number totalDuration itemsLength
                             in Some \<lparr>items_duration = itemsDuration,
                                      items_remainder =
                                        js_rem_number totalDuration itemsLength\<rparr>))))"

section \<open>The collaborators, from the specification\<close>

text \<open>
  Modelled from the spec: the rule that excludes a day from scheduling (part of
  \<^verbatim>\<open>utils/date_stuff/date_helpers\<close>, not among the sources). The specification names three
  exclusions: weekends when \<^verbatim>\<open>exclude_weekends\<close> is set, the weekdays listed in
  \<^verbatim>\<open>selected_days_to_skip\<close> ("a configurable set of weekdays excluded from scheduling,
  independent of the weekend-exclusion flag"), and blackout dates ("an inclusive date
  interval to be excluded"). Weekdays are named as in the tests of the utilities
  (\<^verbatim>\<open>['mon', 'tue']\<close>); day 0 (1970-01-01) is a Thursday. The tests also set a feature
  flag before they use one or the other weekday rule; the specification does not mention it
  and the model applies both rules.
\<close>

definition weekday :: "moment \<Rightarrow> string" where
  "weekday m = [''thu'', ''fri'', ''sat'', ''sun'', ''mon'', ''tue'', ''wed'']
                 ! nat (day_of m mod 7)"

definition inBlackoutDate :: "BlackoutDate \<Rightarrow> moment \<Rightarrow> bool" where
  "inBlackoutDate b m =
     (day_of (blackout_start_date b) \<le> day_of m \<and> day_of m \<le> day_of (blackout_end_date b))"

definition dayIsDisabled :: "bool \<Rightarrow> string list \<Rightarrow> BlackoutDate list \<Rightarrow> moment \<Rightarrow> bool" where
  "dayIsDisabled excludeWeekends selectedDaysToSkip blackoutDates m =
     ((excludeWeekends \<and> weekday m \<in> {''sat'', ''sun''})
      \<or> weekday m \<in> set selectedDaysToSkip
      \<or> (\<exists>b \<in> set blackoutDates. inBlackoutDate b m))"

text \<open>
  Modelled from the spec: \<^verbatim>\<open>DateHelpers.addDays\<close> (not among the sources), the primitive
  "add N eligible days skipping exclusions": with \<open>numberOfDays = 1\<close> it gives "the next
  eligible working day after" the start. The walk goes forward one day at a time and counts
  the days that are not excluded; it does not end when every day is excluded, hence the
  result in \<open>option\<close>.
\<close>

partial_function (option) DateHelpers_addDays :: addDays_fn where
  "DateHelpers_addDays start numberOfDays excludeWeekends selectedDaysToSkip blackoutDates =
     (if numberOfDays \<le> 0 then Some start
      else let next = add_days 1 start
           in DateHelpers_addDays next
                (if dayIsDisabled excludeWeekends selectedDaysToSkip blackoutDates next
                 then numberOfDays else numberOfDays - 1)
                excludeWeekends selectedDaysToSkip blackoutDates)"

declare DateHelpers_addDays.simps [code]

text \<open>
  Modelled from the spec: \<^verbatim>\<open>DateHelpers.daysBetween\<close> (not among the sources), "the count
  of eligible working days strictly between \<^verbatim>\<open>startDate\<close> and \<^verbatim>\<open>endDate\<close> (respecting
  the same exclusion rules)".
\<close>

definition DateHelpers_daysBetween :: daysBetween_fn where
  "DateHelpers_daysBetween startDate endDate excludeWeekends selectedDaysToSkip blackoutDates =
     Some (int (length (filter
        (\<lambda>d. \<not> dayIsDisabled excludeWeekends selectedDaysToSkip blackoutDates (d * msPerDay))
        [day_of startDate + 1 .. day_of endDate - 1])))"

text \<open>
  Modelled from the spec: \<^verbatim>\<open>PaceDueDatesCalculator.getDueDates\<close> (not among the sources),
  which "walks a sequence of items and a start date, skipping excluded days, and returns one
  due date per item", as a "mapping from item identity to due date". Each item is due its
  duration in eligible days after the previous due date. The specification gives no contract
  for an undefined start date; the model gives no result there.
\<close>

fun dueDatesFrom ::
  "bool \<Rightarrow> string list \<Rightarrow> BlackoutDate list \<Rightarrow> moment \<Rightarrow> CoursePaceItem list
     \<Rightarrow> PaceDueDates option"
where
  "dueDatesFrom excludeWeekends selectedDaysToSkip blackoutDates current [] = Some []"
| "dueDatesFrom excludeWeekends selectedDaysToSkip blackoutDates current (item # rest) =
     (case DateHelpers_addDays current (duration item) excludeWeekends selectedDaysToSkip
             blackoutDates of
        None \<Rightarrow> None
      | Some due \<Rightarrow>
          (case dueDatesFrom excludeWeekends selectedDaysToSkip blackoutDates due rest of
             None \<Rightarrow> None
           | Some dues \<Rightarrow> Some ((item_id item, due) # dues)))"

definition PaceDueDatesCalculator_getDueDates :: getDueDates_fn where
  "PaceDueDatesCalculator_getDueDates coursePaceItems excludeWeekends selectedDaysToSkip
       blackoutDates startDate =
     (case startDate of
        None \<Rightarrow> None
      | Some start \<Rightarrow>
          dueDatesFrom excludeWeekends selectedDaysToSkip blackoutDates start coursePaceItems)"

subsection \<open>The pace of the validator's tests\<close>

text \<open>
  The tests of \<open>isTimeToCompleteCalendarDaysValid\<close> use a pace that starts on 2021-09-01 with
  a budget of 7 calendar days, weekends not excluded, and three items of duration 2. The
  items are spread over two modules here.
\<close>

definition test_coursePaceItem :: "CoursePaceItem list" where
  "test_coursePaceItem =
     [\<lparr>item_id = ''1'', duration = 2, module_item_type = ''Assignment''\<rparr>,
      \<lparr>item_id = ''2'', duration = 2, module_item_type = ''Assignment''\<rparr>,
      \<lparr>item_id = ''3'', duration = 2, module_item_type = ''Assignment''\<rparr>]"

definition test_coursePace :: CoursePace where
  "test_coursePace =
     \<lparr>start_date = Some (date 2021 9 1), time_to_complete_calendar_days = 7,
      exclude_weekends = False, selected_days_to_skip = [],
      modules = [\<lparr>items = take 2 test_coursePaceItem\<rparr>,
                 \<lparr>items = drop 2 test_coursePaceItem\<rparr>]\<rparr>"

definition test_blackoutDates :: "BlackoutDate list" where
  "test_blackoutDates =
     [\<lparr>blackout_start_date = date 2021 9 2, blackout_end_date = date 2021 9 20\<rparr>]"

section \<open>Properties\<close>

lemma js_rem_nonneg: "0 \<le> a \<Longrightarrow> js_rem a b = a mod \<bar>b\<bar>"
  by (cases "a = 0") (simp_all add: js_rem_def)

subsection \<open>Division of doubles\<close>

text \<open>
  The floor of the rounded quotient is the exact quotient rounded down unless the rounding
  reaches the next integer, and it does not while the remainder is far enough from the
  divisor. This is the case for every dividend below \<open>2 ^ 53\<close>, and with the divisor 7 for
  every dividend below \<open>7 * 2 ^ 51 + 6\<close>.
\<close>

lemma scale_up_reaches: "0 < a \<Longrightarrow> 2 ^ 52 * b \<le> a * 2 ^ scale_up a b"
proof (induction a b rule: scale_up.induct)
  case (1 a b)
  show ?case
  proof (cases "2 ^ 52 * b \<le> a")
    case True
    then show ?thesis by (subst scale_up.simps) simp
  next
    case False
    with "1.prems" have "2 ^ 52 * b \<le> (2 * a) * 2 ^ scale_up (2 * a) b"
      by (intro "1.IH") auto
    with False "1.prems" show ?thesis
      by (subst scale_up.simps) (simp add: mult.assoc)
  qed
qed

lemma rne_div_bounds:
  "x div y \<le> rne_div x y \<and> rne_div x y \<le> x div y + 1
   \<and> (rne_div x y = x div y + 1 \<longrightarrow> y \<le> 2 * (x mod y))"
  by (auto simp: rne_div_def Let_def)

lemma js_floor_div_pos:
  assumes "0 < a" and "0 < b" and "a < 2 ^ 53 * b"
  shows "js_floor_div a b = rne_div (a * 2 ^ scale_up a b) b div 2 ^ scale_up a b"
proof -
  from assms have "scale_down a b = 0"
    by (subst scale_down.simps) simp
  with assms show ?thesis
    by (simp add: js_floor_div_def Let_def)
qed

lemma js_floor_div_no_round_up:
  assumes a: "0 < a" and b: "0 < b" and n: "a < 2 ^ 53 * b"
    and gap: "b < 2 * 2 ^ scale_up a b * (b - a mod b)"
  shows "js_floor_div a b = a div b"
proof -
  define s :: int where "s = 2 ^ scale_up a b"
  define k where "k = a div b"
  define r where "r = a mod b"
  define j where "j = (r * s) div b"
  define r' where "r' = (r * s) mod b"
  define m where "m = rne_div (a * s) b"
  have s: "0 < s" by (simp add: s_def)
  have r: "0 \<le> r" "r < b" using b by (simp_all add: r_def)
  have r': "0 \<le> r'" "r' < b" using b by (simp_all add: r'_def)
  have akr: "a = k * b + r" by (simp add: k_def r_def)
  have rs: "r * s = j * b + r'" by (simp add: j_def r'_def)
  have j0: "0 \<le> j" using r s b by (simp add: j_def pos_imp_zdiv_nonneg_iff)
  have "j * b \<le> r * s" using rs r' by simp
  also have "r * s < b * s" using r s by simp
  finally have "j * b < s * b" by (simp add: mult.commute)
  with b have js: "j < s" by (simp add: mult_less_cancel_right)
  have as: "a * s = (k * s + j) * b + r'"
    using akr rs by (simp add: algebra_simps)
  have qd: "(a * s) div b = k * s + j"
    using as r' b by (simp add: div_pos_pos_trivial)
  have qm: "(a * s) mod b = r'"
    using as r' b by (simp add: mod_pos_pos_trivial)
  from rne_div_bounds [of "a * s" b] qd qm
  have m_lo: "k * s + j \<le> m" and m_hi: "m \<le> k * s + j + 1"
    and m_up: "m = k * s + j + 1 \<Longrightarrow> b \<le> 2 * r'"
    by (simp_all add: m_def)
  have m_lt: "m < k * s + s"
  proof (rule ccontr)
    assume "\<not> m < k * s + s"
    with m_hi js have mj: "m = k * s + j + 1" and j: "j = s - 1"
      by simp_all
    from m_up [OF mj] have "b \<le> 2 * r'" .
    moreover from rs j have "r * s = (s - 1) * b + r'" by simp
    then have "2 * s * (b - r) = 2 * b - 2 * r'"
      by (simp add: algebra_simps)
    ultimately have "2 * s * (b - r) \<le> b" by simp
    with gap show False by (simp add: s_def r_def)
  qed
  have "m div s = k"
  proof -
    have "m = k * s + (m - k * s)" by simp
    moreover have "0 \<le> m - k * s" using m_lo j0 by simp
    moreover have "m - k * s < s" using m_lt by simp
    ultimately show ?thesis
      using s by (metis div_mult_self4 div_pos_pos_trivial add.commute add.right_neutral less_irrefl mult.commute)
  qed
  then show ?thesis
    using js_floor_div_pos [OF a b n] by (simp add: m_def s_def k_def)
qed


lemma js_floor_div_exact:
  assumes "0 \<le> a" and "a < 2 ^ 53" and "0 < b"
  shows "js_floor_div a b = a div b"
proof (cases "a = 0")
  case True
  then show ?thesis by (simp add: js_floor_div_def)
next
  case False
  with assms have a: "0 < a" by simp
  define s :: int where "s = 2 ^ scale_up a b"
  have s: "0 < s" by (simp add: s_def)
  from assms(3) have "(2::int) ^ 53 * 1 \<le> 2 ^ 53 * b"
    by (intro mult_left_mono) simp_all
  with assms(2) have n: "a < 2 ^ 53 * b"
    by simp
  from scale_up_reaches [OF a, of b] have "2 ^ 52 * b \<le> a * s"
    by (simp add: s_def)
  also from assms(2) s have "a * s < 2 ^ 53 * s"
    by simp
  finally have lhs: "b < 2 * s" by simp
  have "2 * s * 1 \<le> 2 * s * (b - a mod b)"
  proof (rule mult_left_mono)
    from assms(3) have "a mod b < b" by simp
    then show "1 \<le> b - a mod b" by simp
    from s show "0 \<le> 2 * s" by simp
  qed
  with lhs have "b < 2 * s * (b - a mod b)"
    by linarith
  then have "b < 2 * 2 ^ scale_up a b * (b - a mod b)"
    unfolding s_def .
  with a assms(3) n show ?thesis
    by (rule js_floor_div_no_round_up)
qed



lemma js_floor_div_number_exact:
  "0 \<le> a \<Longrightarrow> a < 2 ^ 53 \<Longrightarrow> 0 < b \<Longrightarrow> js_floor_div_number a b = Num (js_floor_div a b)"
  by (simp add: js_floor_div_number_def js_floor_div_exact)

lemma calendarDaysToPaceDuration_10:
  "calendarDaysToPaceDuration 10 = \<lparr>weeks = 1, days = 3\<rparr>"
  by (simp add: calendarDaysToPaceDuration_def js_floor_div_exact js_rem_def)

subsection \<open>Duration converter\<close>




subsection \<open>Weighting\<close>

lemma calculatePaceItemDuration_length:
  "length (calculatePaceItemDuration coursePaceItem w) = length coursePaceItem"
  by (simp add: calculatePaceItemDuration_def)

lemma calculatePaceItemDuration_nth:
  "i < length coursePaceItem \<Longrightarrow>
     calculatePaceItemDuration coursePaceItem w ! i =
       (coursePaceItem ! i)\<lparr>duration := js_or (getDuration w (module_item_type (coursePaceItem ! i)))
                                     (duration (coursePaceItem ! i))\<rparr>"
  by (simp add: calculatePaceItemDuration_def)

lemma getDuration_other:
  "t \<noteq> ''Assignment'' \<Longrightarrow> t \<noteq> ''DiscussionTopic'' \<Longrightarrow> t \<noteq> ''Quizzes::Quiz'' \<Longrightarrow>
     t \<noteq> ''Page'' \<Longrightarrow> getDuration w t = None"
  by (simp add: getDuration_def)

lemma getDuration_cases:
  "getDuration w ''Assignment'' = assignment w"
  "getDuration w ''DiscussionTopic'' = discussion w"
  "getDuration w ''Quizzes::Quiz'' = quiz w"
  "getDuration w ''Page'' = page w"
  by (simp_all add: getDuration_def)

text \<open>
  C2, as stated, fails: an item of type \<open>Assignment\<close> with duration 6 and the weighting entry
  \<open>assignment = 0\<close> (defined) keeps the duration 6 instead of taking the weight 0.
\<close>

theorem calculatePaceItemDuration_zero_weight_counterexample:
  "module_item_type \<lparr>item_id = ''1'', duration = 6, module_item_type = ''Assignment''\<rparr>
     = ''Assignment''
   \<and> assignment \<lparr>assignment = Some 0, discussion = Some 3, quiz = Some 4, page = Some 1\<rparr>
     = Some 0
   \<and> duration (calculatePaceItemDuration
        [\<lparr>item_id = ''1'', duration = 6, module_item_type = ''Assignment''\<rparr>]
        \<lparr>assignment = Some 0, discussion = Some 3, quiz = Some 4, page = Some 1\<rparr> ! 0) = 6
   \<and> duration (calculatePaceItemDuration
        [\<lparr>item_id = ''1'', duration = 6, module_item_type = ''Assignment''\<rparr>]
        \<lparr>assignment = Some 0, discussion = Some 3, quiz = Some 4, page = Some 1\<rparr> ! 0) \<noteq> 0"
  by (simp add: calculatePaceItemDuration_def getDuration_def js_or_def)

text \<open>
  C2, amended. In the list returned by \<open>calculatePaceItemDuration\<close>, each item whose
  \<open>module_item_type\<close> is \<open>Assignment\<close>, \<open>DiscussionTopic\<close>, \<open>Quizzes::Quiz\<close> or \<open>Page\<close> and
  whose weighting entry is defined and not 0 has its duration replaced by that weight; each
  item whose type is none of the four, or whose weighting entry is undefined, keeps its
  original duration.
\<close>

theorem calculatePaceItemDuration_applies_nonzero_weight:
  assumes "i < length coursePaceItem"
  shows "(module_item_type (coursePaceItem ! i) = ''Assignment'' \<and> assignment w = Some v \<and> v \<noteq> 0
            \<longrightarrow> duration (calculatePaceItemDuration coursePaceItem w ! i) = v)
       \<and> (module_item_type (coursePaceItem ! i) = ''DiscussionTopic'' \<and> discussion w = Some v \<and> v \<noteq> 0
            \<longrightarrow> duration (calculatePaceItemDuration coursePaceItem w ! i) = v)
       \<and> (module_item_type (coursePaceItem ! i) = ''Quizzes::Quiz'' \<and> quiz w = Some v \<and> v \<noteq> 0
            \<longrightarrow> duration (calculatePaceItemDuration coursePaceItem w ! i) = v)
       \<and> (module_item_type (coursePaceItem ! i) = ''Page'' \<and> page w = Some v \<and> v \<noteq> 0
            \<longrightarrow> duration (calculatePaceItemDuration coursePaceItem w ! i) = v)
       \<and> (module_item_type (coursePaceItem ! i) \<notin> {''Assignment'', ''DiscussionTopic'', ''Quizzes::Quiz'', ''Page''}
            \<longrightarrow> duration (calculatePaceItemDuration coursePaceItem w ! i) = duration (coursePaceItem ! i))
       \<and> (module_item_type (coursePaceItem ! i) = ''Assignment'' \<and> assignment w = None
            \<longrightarrow> duration (calculatePaceItemDuration coursePaceItem w ! i) = duration (coursePaceItem ! i))
       \<and> (module_item_type (coursePaceItem ! i) = ''DiscussionTopic'' \<and> discussion w = None
            \<longrightarrow> duration (calculatePaceItemDuration coursePaceItem w ! i) = duration (coursePaceItem ! i))
       \<and> (module_item_type (coursePaceItem ! i) = ''Quizzes::Quiz'' \<and> quiz w = None
            \<longrightarrow> duration (calculatePaceItemDuration coursePaceItem w ! i) = duration (coursePaceItem ! i))
       \<and> (module_item_type (coursePaceItem ! i) = ''Page'' \<and> page w = None
            \<longrightarrow> duration (calculatePaceItemDuration coursePaceItem w ! i) = duration (coursePaceItem ! i))"
  using assms
  by (simp add: calculatePaceItemDuration_nth getDuration_cases getDuration_other js_or_def)

theorem calculatePaceItemDuration_applies_nonzero_weight_witness:
  "(3::nat) < length
       [\<lparr>item_id = ''1'', duration = 6, module_item_type = ''Assignment''\<rparr>,
        \<lparr>item_id = ''2'', duration = 6, module_item_type = ''DiscussionTopic''\<rparr>,
        \<lparr>item_id = ''3'', duration = 6, module_item_type = ''Quizzes::Quiz''\<rparr>,
        \<lparr>item_id = ''54'', duration = 6, module_item_type = ''Page''\<rparr>]
   \<and> page \<lparr>assignment = Some 2, discussion = Some 3, quiz = Some 4, page = Some 1\<rparr> = Some 1
   \<and> (1::int) \<noteq> 0
   \<and> duration (calculatePaceItemDuration
        [\<lparr>item_id = ''1'', duration = 6, module_item_type = ''Assignment''\<rparr>,
         \<lparr>item_id = ''2'', duration = 6, module_item_type = ''DiscussionTopic''\<rparr>,
         \<lparr>item_id = ''3'', duration = 6, module_item_type = ''Quizzes::Quiz''\<rparr>,
         \<lparr>item_id = ''54'', duration = 6, module_item_type = ''Page''\<rparr>]
        \<lparr>assignment = Some 2, discussion = Some 3, quiz = Some 4, page = Some 1\<rparr> ! 3) = 1"
  using calculatePaceItemDuration_applies_nonzero_weight
    [of 3 "[\<lparr>item_id = ''1'', duration = 6, module_item_type = ''Assignment''\<rparr>,
            \<lparr>item_id = ''2'', duration = 6, module_item_type = ''DiscussionTopic''\<rparr>,
            \<lparr>item_id = ''3'', duration = 6, module_item_type = ''Quizzes::Quiz''\<rparr>,
            \<lparr>item_id = ''54'', duration = 6, module_item_type = ''Page''\<rparr>]"
        "\<lparr>assignment = Some 2, discussion = Some 3, quiz = Some 4, page = Some 1\<rparr>" 1]
  by simp

text \<open>
  C9. An item whose matching weighting entry is defined but equal to 0 keeps its original
  duration: the lookup result is combined with the original duration by \<^verbatim>\<open>||\<close>, and 0 is
  falsy.
\<close>

theorem calculatePaceItemDuration_zero_weight_keeps_duration:
  assumes "i < length coursePaceItem"
    and "(module_item_type (coursePaceItem ! i) = ''Assignment'' \<and> assignment w = Some 0)
       \<or> (module_item_type (coursePaceItem ! i) = ''DiscussionTopic'' \<and> discussion w = Some 0)
       \<or> (module_item_type (coursePaceItem ! i) = ''Quizzes::Quiz'' \<and> quiz w = Some 0)
       \<or> (module_item_type (coursePaceItem ! i) = ''Page'' \<and> page w = Some 0)"
  shows "duration (calculatePaceItemDuration coursePaceItem w ! i) = duration (coursePaceItem ! i)"
proof -
  from assms(2) have "getDuration w (module_item_type (coursePaceItem ! i)) = Some 0"
    by (auto simp: getDuration_cases)
  with assms(1) show ?thesis
    by (simp add: calculatePaceItemDuration_nth js_or_def)
qed

theorem calculatePaceItemDuration_zero_weight_keeps_duration_witness:
  "(1::nat) < length
       [\<lparr>item_id = ''1'', duration = 6, module_item_type = ''Assignment''\<rparr>,
        \<lparr>item_id = ''2'', duration = 5, module_item_type = ''DiscussionTopic''\<rparr>]
   \<and> module_item_type
        ([\<lparr>item_id = ''1'', duration = 6, module_item_type = ''Assignment''\<rparr>,
          \<lparr>item_id = ''2'', duration = 5, module_item_type = ''DiscussionTopic''\<rparr>] ! 1)
       = ''DiscussionTopic''
   \<and> discussion \<lparr>assignment = Some 2, discussion = Some 0, quiz = None, page = None\<rparr> = Some 0
   \<and> duration (calculatePaceItemDuration
        [\<lparr>item_id = ''1'', duration = 6, module_item_type = ''Assignment''\<rparr>,
         \<lparr>item_id = ''2'', duration = 5, module_item_type = ''DiscussionTopic''\<rparr>]
        \<lparr>assignment = Some 2, discussion = Some 0, quiz = None, page = None\<rparr> ! 1) = 5"
  using calculatePaceItemDuration_zero_weight_keeps_duration
    [of 1 "[\<lparr>item_id = ''1'', duration = 6, module_item_type = ''Assignment''\<rparr>,
            \<lparr>item_id = ''2'', duration = 5, module_item_type = ''DiscussionTopic''\<rparr>]"
        "\<lparr>assignment = Some 2, discussion = Some 0, quiz = None, page = None\<rparr>"]
  by simp

text \<open>
  C10. The returned list has the length and the order of the input list: the item at every
  position is the input item at that position with at most its duration changed, so every
  field other than \<open>duration\<close> (the named ones and all the fields of the extension) is equal.
\<close>

theorem calculatePaceItemDuration_frame:
  "length (calculatePaceItemDuration coursePaceItem w) = length coursePaceItem
   \<and> (\<forall>i < length coursePaceItem.
        item_id (calculatePaceItemDuration coursePaceItem w ! i) = item_id (coursePaceItem ! i)
      \<and> module_item_type (calculatePaceItemDuration coursePaceItem w ! i) = module_item_type (coursePaceItem ! i)
      \<and> CoursePaceItem.more (calculatePaceItemDuration coursePaceItem w ! i)
          = CoursePaceItem.more (coursePaceItem ! i)
      \<and> (calculatePaceItemDuration coursePaceItem w ! i)\<lparr>duration := duration (coursePaceItem ! i)\<rparr>
          = coursePaceItem ! i)"
  by (simp add: calculatePaceItemDuration_length calculatePaceItemDuration_nth)

theorem calculatePaceItemDuration_frame_witness:
  "length (calculatePaceItemDuration
      [\<lparr>item_id = ''1'', duration = 6, module_item_type = ''Assignment''\<rparr>,
       \<lparr>item_id = ''2'', duration = 5, module_item_type = ''File''\<rparr>]
      \<lparr>assignment = Some 2, discussion = None, quiz = None, page = None\<rparr>) = 2
   \<and> calculatePaceItemDuration
      [\<lparr>item_id = ''1'', duration = 6, module_item_type = ''Assignment''\<rparr>,
       \<lparr>item_id = ''2'', duration = 5, module_item_type = ''File''\<rparr>]
      \<lparr>assignment = Some 2, discussion = None, quiz = None, page = None\<rparr>
     = [\<lparr>item_id = ''1'', duration = 2, module_item_type = ''Assignment''\<rparr>,
        \<lparr>item_id = ''2'', duration = 5, module_item_type = ''File''\<rparr>]"
  using calculatePaceItemDuration_frame
    [of "[\<lparr>item_id = ''1'', duration = 6, module_item_type = ''Assignment''\<rparr>,
          \<lparr>item_id = ''2'', duration = 5, module_item_type = ''File''\<rparr>]"
        "\<lparr>assignment = Some 2, discussion = None, quiz = None, page = None\<rparr>"]
  by (simp add: calculatePaceItemDuration_def getDuration_def js_or_def)

subsection \<open>The store is only extended\<close>

lemma object_at_append: "object_at h r = Some item \<Longrightarrow> object_at (h @ xs) r = Some item"
  by (auto simp: object_at_def deref_def nth_append split: if_splits option.splits cell.splits)

lemma object_at_new: "object_at (h @ Object item # xs) (length h) = Some item"
  by (simp add: object_at_def deref_def nth_append)

lemma those_objects_append:
  "those (map (object_at h) rs) = Some coursePaceItem \<Longrightarrow> those (map (object_at (h @ xs)) rs) = Some coursePaceItem"
proof (induction rs arbitrary: coursePaceItem)
  case Nil
  then show ?case by simp
next
  case (Cons r rs)
  then show ?case
    by (auto simp: object_at_append split: option.splits)
qed

lemma upt_add_Suc: "[n ..< n + Suc k] = n # [Suc n ..< Suc n + k]"
  by (simp add: upt_conv_Cons del: upt_Suc)

lemma those_objects_fresh:
  "those (map (object_at (h @ map Object coursePaceItem)) [length h ..< length h + length coursePaceItem])
     = Some coursePaceItem"
proof (induction coursePaceItem arbitrary: h)
  case Nil
  then show ?case by simp
next
  case (Cons item coursePaceItem)
  have "those (map (object_at ((h @ [Object item]) @ map Object coursePaceItem))
          [length (h @ [Object item]) ..< length (h @ [Object item]) + length coursePaceItem]) = Some coursePaceItem"
    by (rule Cons.IH)
  then show ?case
    using upt_add_Suc [of "length h" "length coursePaceItem"]
    by (simp add: object_at_new del: upt_Suc)
qed

lemma map_callback_eq:
  "those (map (object_at h) rs) = Some coursePaceItem \<Longrightarrow>
     map_callback w h rs =
       Some (h @ map Object (calculatePaceItemDuration coursePaceItem w),
             [length h ..< length h + length rs])"
proof (induction rs arbitrary: h coursePaceItem)
  case Nil
  then show ?case by (simp add: calculatePaceItemDuration_def)
next
  case (Cons r rs)
  from Cons.prems obtain item rest where
    r: "object_at h r = Some item" and rest: "those (map (object_at h) rs) = Some rest"
    and coursePaceItem: "coursePaceItem = item # rest"
    by (auto split: option.splits)
  let ?item' = "item\<lparr>duration := js_or (getDuration w (module_item_type item)) (duration item)\<rparr>"
  from r have d: "deref h r = Some (Object item)"
    by (auto simp: object_at_def split: option.splits cell.splits)
  from rest have "those (map (object_at (h @ [Object ?item'])) rs) = Some rest"
    by (rule those_objects_append)
  then have "map_callback w (h @ [Object ?item']) rs =
      Some ((h @ [Object ?item']) @ map Object (calculatePaceItemDuration rest w),
            [length (h @ [Object ?item']) ..< length (h @ [Object ?item']) + length rs])"
    by (rule Cons.IH)
  with d coursePaceItem show ?case
    using upt_add_Suc [of "length h" "length rs"]
    by (simp add: alloc_def calculatePaceItemDuration_def del: upt_Suc)
qed


lemma array_at_append: "array_at h r = Some rs \<Longrightarrow> array_at (h @ xs) r = Some rs"
  by (auto simp: array_at_def deref_def nth_append split: if_splits option.splits cell.splits)

lemma array_at_new: "array_at (h @ [Array rs]) (length h) = Some rs"
  by (simp add: array_at_def deref_def)

lemma those_length: "those xs = Some ys \<Longrightarrow> length ys = length xs"
  by (induction xs arbitrary: ys) (auto split: option.splits)

lemma calculatePaceItemDuration_store_eq:
  assumes "array_at h a = Some rs" and "those (map (object_at h) rs) = Some coursePaceItem"
  shows "calculatePaceItemDuration_store h a w =
           Some (h @ map Object (calculatePaceItemDuration coursePaceItem w)
                   @ [Array [length h ..< length h + length coursePaceItem]],
                 length h + length coursePaceItem)"
proof -
  from assms(1) have d: "deref h a = Some (Array rs)"
    by (auto simp: array_at_def split: option.splits cell.splits)
  from assms(2) have len: "length coursePaceItem = length rs"
    using those_length by fastforce
  from assms(2) have "map_callback w h rs =
      Some (h @ map Object (calculatePaceItemDuration coursePaceItem w),
            [length h ..< length h + length rs])"
    by (rule map_callback_eq)
  with d len show ?thesis
    by (simp add: calculatePaceItemDuration_store_def alloc_def
        calculatePaceItemDuration_length)
qed

text \<open>
  C8. \<open>calculatePaceItemDuration\<close> produces a new sequence and does not mutate its input:
  on a store where the argument reads as the item list \<open>coursePaceItem\<close>, the call returns, every cell
  of the old store is unchanged (so the input array and the input coursePaceItem read as before), the
  returned array and the objects it refers to are new cells, and they read as the result of
  the function on \<open>coursePaceItem\<close>. Every item whose \<open>module_item_type\<close> is none of \<open>Assignment\<close>,
  \<open>DiscussionTopic\<close>, \<open>Quizzes::Quiz\<close>, \<open>Page\<close> has the duration of the input item.
\<close>

theorem calculatePaceItemDuration_store_keeps_input:
  assumes "read_items h a = Some coursePaceItem"
  shows "\<exists>h' a'. calculatePaceItemDuration_store h a w = Some (h', a')
           \<and> take (length h) h' = h
           \<and> read_items h' a = Some coursePaceItem
           \<and> length h \<le> a'
           \<and> (\<exists>rs'. array_at h' a' = Some rs' \<and> (\<forall>r \<in> set rs'. length h \<le> r))
           \<and> read_items h' a' = Some (calculatePaceItemDuration coursePaceItem w)
           \<and> (\<forall>i < length coursePaceItem.
                 module_item_type (coursePaceItem ! i)
                   \<notin> {''Assignment'', ''DiscussionTopic'', ''Quizzes::Quiz'', ''Page''}
                 \<longrightarrow> duration (calculatePaceItemDuration coursePaceItem w ! i) = duration (coursePaceItem ! i))"
proof -
  from assms obtain rs where
    arr: "array_at h a = Some rs" and objs: "those (map (object_at h) rs) = Some coursePaceItem"
    by (auto simp: read_items_def split: option.splits)
  let ?new = "calculatePaceItemDuration coursePaceItem w"
  let ?rs' = "[length h ..< length h + length coursePaceItem]"
  let ?h1 = "h @ map Object ?new"
  let ?h' = "?h1 @ [Array ?rs']"
  let ?a' = "length h + length coursePaceItem"
  have run: "calculatePaceItemDuration_store h a w = Some (?h', ?a')"
    using arr objs by (simp add: calculatePaceItemDuration_store_eq)
  have keep: "take (length h) ?h' = h"
    by simp
  have old: "read_items ?h' a = Some coursePaceItem"
    using array_at_append [OF arr, of "map Object ?new @ [Array ?rs']"]
      those_objects_append [OF objs, of "map Object ?new @ [Array ?rs']"]
    by (simp add: read_items_def)
  have new_arr: "array_at ?h' ?a' = Some ?rs'"
    using array_at_new [of ?h1 ?rs'] by (simp add: calculatePaceItemDuration_length)
  have "those (map (object_at ?h1) [length h ..< length h + length ?new]) = Some ?new"
    by (rule those_objects_fresh)
  then have "those (map (object_at ?h') ?rs') = Some ?new"
    using those_objects_append [of ?h1 "[length h ..< length h + length ?new]" ?new "[Array ?rs']"]
    by (simp add: calculatePaceItemDuration_length)
  with new_arr have new: "read_items ?h' ?a' = Some ?new"
    by (simp add: read_items_def)
  have fresh: "\<forall>r \<in> set ?rs'. length h \<le> r"
    by simp
  have dur: "\<forall>i < length coursePaceItem.
      module_item_type (coursePaceItem ! i)
        \<notin> {''Assignment'', ''DiscussionTopic'', ''Quizzes::Quiz'', ''Page''}
      \<longrightarrow> duration (?new ! i) = duration (coursePaceItem ! i)"
    by (simp add: calculatePaceItemDuration_nth getDuration_other js_or_def)
  from run keep old new_arr fresh new dur show ?thesis
    by (intro exI conjI) (assumption | simp)+
qed

theorem calculatePaceItemDuration_store_keeps_input_witness:
  "read_items
     [Object \<lparr>item_id = ''1'', duration = 6, module_item_type = ''Assignment''\<rparr>,
      Object \<lparr>item_id = ''2'', duration = 5, module_item_type = ''File''\<rparr>,
      Array [0, 1]] 2
     = Some [\<lparr>item_id = ''1'', duration = 6, module_item_type = ''Assignment''\<rparr>,
             \<lparr>item_id = ''2'', duration = 5, module_item_type = ''File''\<rparr>]
   \<and> calculatePaceItemDuration_store
     [Object \<lparr>item_id = ''1'', duration = 6, module_item_type = ''Assignment''\<rparr>,
      Object \<lparr>item_id = ''2'', duration = 5, module_item_type = ''File''\<rparr>,
      Array [0, 1]] 2
     \<lparr>assignment = Some 2, discussion = None, quiz = None, page = None\<rparr>
     = Some ([Object \<lparr>item_id = ''1'', duration = 6, module_item_type = ''Assignment''\<rparr>,
              Object \<lparr>item_id = ''2'', duration = 5, module_item_type = ''File''\<rparr>,
              Array [0, 1],
              Object \<lparr>item_id = ''1'', duration = 2, module_item_type = ''Assignment''\<rparr>,
              Object \<lparr>item_id = ''2'', duration = 5, module_item_type = ''File''\<rparr>,
              Array [3, 4]], 5)"
  using calculatePaceItemDuration_store_keeps_input
    [of "[Object \<lparr>item_id = ''1'', duration = 6, module_item_type = ''Assignment''\<rparr>,
          Object \<lparr>item_id = ''2'', duration = 5, module_item_type = ''File''\<rparr>,
          Array [0, 1]]" 2
        "[\<lparr>item_id = ''1'', duration = 6, module_item_type = ''Assignment''\<rparr>,
          \<lparr>item_id = ''2'', duration = 5, module_item_type = ''File''\<rparr>]"
        "\<lparr>assignment = Some 2, discussion = None, quiz = None, page = None\<rparr>"]
  by (simp add: read_items_def array_at_def object_at_def deref_def
      calculatePaceItemDuration_store_def alloc_def getDuration_def js_or_def)

subsection \<open>Dates\<close>

lemma day_of_startOf_day: "day_of (startOf_day m) = day_of m"
  by (simp add: startOf_day_def day_of_def msPerDay_def)

lemma rawDaysBetweenInclusive_startOf_day:
  "rawDaysBetweenInclusive (startOf_day s) e = day_of e - day_of s + 1"
  by (simp add: rawDaysBetweenInclusive_def day_of_startOf_day)

lemma moment_max_pick: "foldl (\<lambda>res x. if isAfter x res then x else res) m rest = fold max rest m"
proof -
  have "(\<lambda>res x. if isAfter x res then x else res) = (\<lambda>res x. max x (res::int))"
    by (auto simp: isAfter_def max_def fun_eq_iff)
  then show ?thesis
    by (simp add: foldl_conv_fold)
qed

lemma moment_max_Max:
  assumes "moments \<noteq> []"
  shows "moment_max now moments = Max (set moments)"
proof (cases moments)
  case Nil
  with assms show ?thesis by simp
next
  case (Cons m rest)
  have "Max (set (m # rest)) = fold max rest m"
    by (rule Max.set_eq_fold)
  with Cons show ?thesis
    by (simp add: moment_max_def moment_max_pick)
qed

lemma moment_max_due_dates:
  assumes "paceDueDates \<noteq> []"
  shows "moment_max now (Object_values paceDueDates) = Max (snd ` set paceDueDates)"
proof -
  from assms have "Object_values paceDueDates \<noteq> []"
    by (simp add: Object_values_def)
  then have "moment_max now (Object_values paceDueDates) = Max (set (Object_values paceDueDates))"
    by (rule moment_max_Max)
  then show ?thesis
    by (simp add: Object_values_def)
qed

text \<open>
  C7. For dates with \<open>startDate \<le> endDate\<close>, \<open>calculatePaceDuration\<close> is
  \<open>calendarDaysToPaceDuration\<close> applied to the inclusive day count between the two dates,
  the number of calendar days from the day of \<open>startDate\<close> to the day of \<open>endDate\<close>; in
  particular, from 2022-01-01 to 2022-01-10 it is 1 week and 3 days.
\<close>

theorem calculatePaceDuration_inclusive_days:
  assumes "startDate \<le> endDate"
  shows "calculatePaceDuration startDate endDate
           = calendarDaysToPaceDuration (int (card {day_of startDate .. day_of endDate}))
       \<and> calculatePaceDuration (date 2022 1 1) (date 2022 1 10) = \<lparr>weeks = 1, days = 3\<rparr>"
proof -
  from assms have "day_of startDate \<le> day_of endDate"
    by (simp add: day_of_def msPerDay_def zdiv_mono1)
  then have "int (card {day_of startDate .. day_of endDate})
      = rawDaysBetweenInclusive startDate endDate"
    by (simp add: rawDaysBetweenInclusive_def)
  moreover have "calculatePaceDuration (date 2022 1 1) (date 2022 1 10) = \<lparr>weeks = 1, days = 3\<rparr>"
    by (simp add: calculatePaceDuration_def rawDaysBetweenInclusive_def day_of_def date_def
        days_from_civil_def msPerDay_def calendarDaysToPaceDuration_10)
  ultimately show ?thesis
    by (simp add: calculatePaceDuration_def)
qed


theorem calculatePaceDuration_inclusive_days_witness:
  "date 2022 1 1 \<le> date 2022 1 10
   \<and> int (card {day_of (date 2022 1 1) .. day_of (date 2022 1 10)}) = 10
   \<and> calculatePaceDuration (date 2022 1 1) (date 2022 1 10)
       = calendarDaysToPaceDuration 10
   \<and> calculatePaceDuration (date 2022 1 1) (date 2022 1 10) = \<lparr>weeks = 1, days = 3\<rparr>"
proof -
  have le: "date 2022 1 1 \<le> date 2022 1 10"
    by (simp add: date_def days_from_civil_def msPerDay_def)
  have days: "int (card {day_of (date 2022 1 1) .. day_of (date 2022 1 10)}) = 10"
    by (simp add: date_def days_from_civil_def msPerDay_def day_of_def)
  from calculatePaceDuration_inclusive_days [OF le] days le show ?thesis
    by (simp add: calendarDaysToPaceDuration_10)
qed

subsection \<open>Pace validator\<close>

text \<open>
  C3. When the due-date calculator returns due dates (at least one) for a pace with a start
  date, \<open>isTimeToCompleteCalendarDaysValid\<close> returns true if and only if the inclusive
  calendar-day span from the start date to the maximum of the returned due dates is at most
  \<open>time_to_complete_calendar_days\<close>.
\<close>

theorem isTimeToCompleteCalendarDaysValid_iff_span_within:
  assumes "getDueDates coursePaceItem (exclude_weekends coursePace)
             (selected_days_to_skip coursePace) blackoutDates (start_date coursePace)
           = Some paceDueDates"
    and "paceDueDates \<noteq> []"
    and "start_date coursePace = Some start"
  shows "isTimeToCompleteCalendarDaysValid getDueDates now coursePace coursePaceItem blackoutDates
         = Some (rawDaysBetweenInclusive (startOf_day start)
                   (Max (snd ` set paceDueDates))
                 \<le> time_to_complete_calendar_days coursePace)
       \<and> isTimeToCompleteCalendarDaysValid getDueDates now coursePace coursePaceItem blackoutDates
         = Some (day_of (Max (snd ` set paceDueDates)) - day_of start + 1
                 \<le> time_to_complete_calendar_days coursePace)"
proof -
  from assms(2) have "moment_max now (Object_values paceDueDates) = Max (snd ` set paceDueDates)"
    by (rule moment_max_due_dates)
  with assms(1,3) have
    "isTimeToCompleteCalendarDaysValid getDueDates now coursePace coursePaceItem blackoutDates
     = Some (rawDaysBetweenInclusive (startOf_day start)
               (Max (snd ` set paceDueDates))
             \<le> time_to_complete_calendar_days coursePace)"
    by (simp add: isTimeToCompleteCalendarDaysValid_def moment_of_def)
  then show ?thesis
    by (simp add: rawDaysBetweenInclusive_startOf_day)
qed

theorem isTimeToCompleteCalendarDaysValid_iff_span_within_witness:
  "PaceDueDatesCalculator_getDueDates test_coursePaceItem (exclude_weekends test_coursePace)
       (selected_days_to_skip test_coursePace) [] (start_date test_coursePace)
     = Some [(''1'', date 2021 9 3), (''2'', date 2021 9 5), (''3'', date 2021 9 7)]
   \<and> [(''1'', date 2021 9 3), (''2'', date 2021 9 5), (''3'', date 2021 9 7)] \<noteq> []
   \<and> start_date test_coursePace = Some (date 2021 9 1)
   \<and> isTimeToCompleteCalendarDaysValid PaceDueDatesCalculator_getDueDates (date 2022 1 1)
        test_coursePace test_coursePaceItem [] = Some True"
proof -
  have calc: "PaceDueDatesCalculator_getDueDates test_coursePaceItem
       (exclude_weekends test_coursePace) (selected_days_to_skip test_coursePace) []
       (start_date test_coursePace)
     = Some [(''1'', date 2021 9 3), (''2'', date 2021 9 5), (''3'', date 2021 9 7)]"
    by code_simp
  have nonempty: "[(''1'', date 2021 9 3), (''2'', date 2021 9 5), (''3'', date 2021 9 7)] \<noteq> []"
    by simp
  have start: "start_date test_coursePace = Some (date 2021 9 1)"
    by (simp add: test_coursePace_def)
  have "isTimeToCompleteCalendarDaysValid PaceDueDatesCalculator_getDueDates (date 2022 1 1)
          test_coursePace test_coursePaceItem []
        = Some (day_of (Max (snd ` set
                     [(''1'', date 2021 9 3), (''2'', date 2021 9 5), (''3'', date 2021 9 7)]))
                  - day_of (date 2021 9 1) + 1
                \<le> time_to_complete_calendar_days test_coursePace)"
    by (rule isTimeToCompleteCalendarDaysValid_iff_span_within
        [where getDueDates = PaceDueDatesCalculator_getDueDates
           and coursePace = test_coursePace, OF calc nonempty start, THEN conjunct2])
  moreover have "day_of (Max (snd ` set
                     [(''1'', date 2021 9 3), (''2'', date 2021 9 5), (''3'', date 2021 9 7)]))
                  - day_of (date 2021 9 1) + 1
                \<le> time_to_complete_calendar_days test_coursePace"
    by code_simp
  ultimately show ?thesis
    using calc nonempty start by simp
qed

text \<open>
  C6. \<open>getTimeToCompleteCalendarDaysFromItemsDuration\<close> hands the items of all modules of
  the pace, flattened into one sequence, to the due-date calculator. When the calculator
  returns due dates (at least one) for a pace with a start date, the result is the inclusive
  calendar-day span from the start date to the maximum due date, minus 1; the validator, on
  the same flattened sequence, compares the same span with the budget.
\<close>

theorem getTimeToCompleteCalendarDaysFromItemsDuration_span_minus_one:
  assumes "getDueDates (concat (map items (modules coursePace))) (exclude_weekends coursePace)
             (selected_days_to_skip coursePace) blackOutDates (start_date coursePace)
           = Some paceDueDates"
    and "paceDueDates \<noteq> []"
    and "start_date coursePace = Some start"
  shows "getTimeToCompleteCalendarDaysFromItemsDuration getDueDates now coursePace blackOutDates
         = Some (rawDaysBetweenInclusive (startOf_day start)
                   (Max (snd ` set paceDueDates)) - 1)
       \<and> getTimeToCompleteCalendarDaysFromItemsDuration getDueDates now coursePace blackOutDates
         = Some ((day_of (Max (snd ` set paceDueDates)) - day_of start + 1) - 1)
       \<and> isTimeToCompleteCalendarDaysValid getDueDates now coursePace
           (concat (map items (modules coursePace))) blackOutDates
         = Some (day_of (Max (snd ` set paceDueDates)) - day_of start + 1
                   \<le> time_to_complete_calendar_days coursePace)"
proof -
  from assms(2) have m: "moment_max now (Object_values paceDueDates) = Max (snd ` set paceDueDates)"
    by (rule moment_max_due_dates)
  from m assms(1,3) have span:
    "getTimeToCompleteCalendarDaysFromItemsDuration getDueDates now coursePace blackOutDates
       = Some (rawDaysBetweenInclusive (startOf_day start)
                 (Max (snd ` set paceDueDates)) - 1)"
    by (simp add: getTimeToCompleteCalendarDaysFromItemsDuration_def moment_of_def)
  from m assms(1,3) have valid:
    "isTimeToCompleteCalendarDaysValid getDueDates now coursePace
       (concat (map items (modules coursePace))) blackOutDates
     = Some (day_of (Max (snd ` set paceDueDates)) - day_of start + 1
               \<le> time_to_complete_calendar_days coursePace)"
    by (simp add: isTimeToCompleteCalendarDaysValid_def moment_of_def
        rawDaysBetweenInclusive_startOf_day)
  from span valid show ?thesis
    by (simp add: rawDaysBetweenInclusive_startOf_day)
qed

theorem getTimeToCompleteCalendarDaysFromItemsDuration_span_minus_one_witness:
  "concat (map items (modules test_coursePace)) = test_coursePaceItem
   \<and> PaceDueDatesCalculator_getDueDates (concat (map items (modules test_coursePace)))
       (exclude_weekends test_coursePace) (selected_days_to_skip test_coursePace) []
       (start_date test_coursePace)
     = Some [(''1'', date 2021 9 3), (''2'', date 2021 9 5), (''3'', date 2021 9 7)]
   \<and> [(''1'', date 2021 9 3), (''2'', date 2021 9 5), (''3'', date 2021 9 7)] \<noteq> []
   \<and> start_date test_coursePace = Some (date 2021 9 1)
   \<and> getTimeToCompleteCalendarDaysFromItemsDuration PaceDueDatesCalculator_getDueDates
        (date 2022 1 1) test_coursePace [] = Some 6"
proof -
  have flat: "concat (map items (modules test_coursePace)) = test_coursePaceItem"
    by (simp add: test_coursePace_def)
  have calc: "PaceDueDatesCalculator_getDueDates (concat (map items (modules test_coursePace)))
       (exclude_weekends test_coursePace) (selected_days_to_skip test_coursePace) []
       (start_date test_coursePace)
     = Some [(''1'', date 2021 9 3), (''2'', date 2021 9 5), (''3'', date 2021 9 7)]"
    by code_simp
  have nonempty: "[(''1'', date 2021 9 3), (''2'', date 2021 9 5), (''3'', date 2021 9 7)] \<noteq> []"
    by simp
  have start: "start_date test_coursePace = Some (date 2021 9 1)"
    by (simp add: test_coursePace_def)
  have "getTimeToCompleteCalendarDaysFromItemsDuration PaceDueDatesCalculator_getDueDates
          (date 2022 1 1) test_coursePace []
        = Some ((day_of (Max (snd ` set
                     [(''1'', date 2021 9 3), (''2'', date 2021 9 5), (''3'', date 2021 9 7)]))
                  - day_of (date 2021 9 1) + 1) - 1)"
    by (rule getTimeToCompleteCalendarDaysFromItemsDuration_span_minus_one
        [where getDueDates = PaceDueDatesCalculator_getDueDates
           and coursePace = test_coursePace, OF calc nonempty start,
         THEN conjunct2, THEN conjunct1])
  moreover have "(day_of (Max (snd ` set
                     [(''1'', date 2021 9 3), (''2'', date 2021 9 5), (''3'', date 2021 9 7)]))
                  - day_of (date 2021 9 1) + 1) - 1 = 6"
    by code_simp
  ultimately show ?thesis
    using flat calc nonempty start by simp
qed

text \<open>
  C4. \<open>getItemsDurationFromTimeToComplete\<close> returns the sentinel \<open>{duration: 0, remainder: 0}\<close>
  when \<open>calendarDays < 1\<close>, or when the start date of the pace is undefined, or when the next
  eligible working day after the start date is after the end of the day
  \<open>start_date + calendarDays\<close>, whatever the other arguments and the collaborators are.
\<close>

theorem getItemsDurationFromTimeToComplete_sentinel:
  assumes "calendarDays < 1
         \<or> start_date coursePace = None
         \<or> (\<exists>start startDate.
               start_date coursePace = Some start
             \<and> addDays start 1 (exclude_weekends coursePace) (selected_days_to_skip coursePace)
                 blackOutDays = Some startDate
             \<and> isAfter startDate (endOf_day (add_days calendarDays start)))"
  shows "getItemsDurationFromTimeToComplete addDays daysBetween coursePace blackOutDays
           calendarDays itemsLength
         = Some \<lparr>items_duration = Num 0, items_remainder = Num 0\<rparr>"
  using assms
  by (auto simp: getItemsDurationFromTimeToComplete_def)

theorem getItemsDurationFromTimeToComplete_sentinel_witness:
  "(0::int) < 1
   \<and> getItemsDurationFromTimeToComplete DateHelpers_addDays DateHelpers_daysBetween
        test_coursePace [] 0 3
     = Some \<lparr>items_duration = Num 0, items_remainder = Num 0\<rparr>
   \<and> start_date (test_coursePace\<lparr>start_date := None\<rparr>) = None
   \<and> getItemsDurationFromTimeToComplete DateHelpers_addDays DateHelpers_daysBetween
        (test_coursePace\<lparr>start_date := None\<rparr>) [] 7 3
     = Some \<lparr>items_duration = Num 0, items_remainder = Num 0\<rparr>
   \<and> DateHelpers_addDays (date 2021 9 1) 1 (exclude_weekends test_coursePace)
        (selected_days_to_skip test_coursePace) test_blackoutDates = Some (date 2021 9 21)
   \<and> isAfter (date 2021 9 21) (endOf_day (add_days 7 (date 2021 9 1)))
   \<and> getItemsDurationFromTimeToComplete DateHelpers_addDays DateHelpers_daysBetween
        test_coursePace test_blackoutDates 7 3
     = Some \<lparr>items_duration = Num 0, items_remainder = Num 0\<rparr>"
proof -
  have start: "start_date test_coursePace = Some (date 2021 9 1)"
    by (simp add: test_coursePace_def)
  have next_day: "DateHelpers_addDays (date 2021 9 1) 1 (exclude_weekends test_coursePace)
        (selected_days_to_skip test_coursePace) test_blackoutDates = Some (date 2021 9 21)"
    by code_simp
  have after: "isAfter (date 2021 9 21) (endOf_day (add_days 7 (date 2021 9 1)))"
    by code_simp
  have "getItemsDurationFromTimeToComplete DateHelpers_addDays DateHelpers_daysBetween
        test_coursePace [] 0 3
     = Some \<lparr>items_duration = Num 0, items_remainder = Num 0\<rparr>"
    using getItemsDurationFromTimeToComplete_sentinel
      [where calendarDays = 0 and coursePace = test_coursePace]
    by simp
  moreover have "getItemsDurationFromTimeToComplete DateHelpers_addDays DateHelpers_daysBetween
        (test_coursePace\<lparr>start_date := None\<rparr>) [] 7 3
     = Some \<lparr>items_duration = Num 0, items_remainder = Num 0\<rparr>"
    using getItemsDurationFromTimeToComplete_sentinel
      [where calendarDays = 7 and coursePace = "test_coursePace\<lparr>start_date := None\<rparr>"]
    by simp
  moreover have "getItemsDurationFromTimeToComplete DateHelpers_addDays DateHelpers_daysBetween
        test_coursePace test_blackoutDates 7 3
     = Some \<lparr>items_duration = Num 0, items_remainder = Num 0\<rparr>"
    using getItemsDurationFromTimeToComplete_sentinel
      [where calendarDays = 7 and coursePace = test_coursePace
         and addDays = DateHelpers_addDays and blackOutDays = test_blackoutDates]
      start next_day after
    by blast
  ultimately show ?thesis
    using next_day after by simp
qed

text \<open>
  C5. In the non-degenerate case (\<open>calendarDays \<ge> 1\<close>, start date defined, the adjusted start
  date not after the end date, \<open>itemsLength > 0\<close>), with \<open>E\<close> the count of eligible working
  days that \<^verbatim>\<open>daysBetween\<close> returns for the adjusted start date and the end date, the result
  is \<open>duration = E div itemsLength\<close> and \<open>remainder = E mod itemsLength\<close>, so that
  \<open>duration * itemsLength + remainder = E\<close> and \<open>0 \<le> remainder < itemsLength\<close>.
\<close>

theorem getItemsDurationFromTimeToComplete_divides:
  assumes "1 \<le> calendarDays"
    and "start_date coursePace = Some start"
    and "addDays start 1 (exclude_weekends coursePace) (selected_days_to_skip coursePace)
           blackOutDays = Some startDate"
    and "\<not> isAfter startDate (endOf_day (add_days calendarDays start))"
    and "daysBetween startDate (endOf_day (add_days calendarDays start))
           (exclude_weekends coursePace) (selected_days_to_skip coursePace) blackOutDays
         = Some E"
    and "0 \<le> E"
    and "0 < itemsLength"
  shows "getItemsDurationFromTimeToComplete addDays daysBetween coursePace blackOutDays
           calendarDays itemsLength
         = Some \<lparr>items_duration = Num (E div itemsLength),
                 items_remainder = Num (E mod itemsLength)\<rparr>
       \<and> (E div itemsLength) * itemsLength + E mod itemsLength = E
       \<and> 0 \<le> E mod itemsLength \<and> E mod itemsLength < itemsLength"
proof -
  from assms(6,7) have "js_rem E itemsLength = E mod itemsLength"
    by (simp add: js_rem_nonneg)
  with assms show ?thesis
    by (simp add: getItemsDurationFromTimeToComplete_def js_floor_div_number_def
        js_rem_number_def)
qed

theorem getItemsDurationFromTimeToComplete_divides_witness:
  "(1::int) \<le> 7
   \<and> start_date test_coursePace = Some (date 2021 9 1)
   \<and> DateHelpers_addDays (date 2021 9 1) 1 (exclude_weekends test_coursePace)
        (selected_days_to_skip test_coursePace) [] = Some (date 2021 9 2)
   \<and> \<not> isAfter (date 2021 9 2) (endOf_day (add_days 7 (date 2021 9 1)))
   \<and> DateHelpers_daysBetween (date 2021 9 2) (endOf_day (add_days 7 (date 2021 9 1)))
        (exclude_weekends test_coursePace) (selected_days_to_skip test_coursePace) [] = Some 5
   \<and> (0::int) \<le> 5 \<and> (0::int) < 3
   \<and> getItemsDurationFromTimeToComplete DateHelpers_addDays DateHelpers_daysBetween
        test_coursePace [] 7 3
     = Some \<lparr>items_duration = Num 1, items_remainder = Num 2\<rparr>"
proof -
  have start: "start_date test_coursePace = Some (date 2021 9 1)"
    by (simp add: test_coursePace_def)
  have next_day: "DateHelpers_addDays (date 2021 9 1) 1 (exclude_weekends test_coursePace)
        (selected_days_to_skip test_coursePace) [] = Some (date 2021 9 2)"
    by code_simp
  have not_after: "\<not> isAfter (date 2021 9 2) (endOf_day (add_days 7 (date 2021 9 1)))"
    by code_simp
  have total: "DateHelpers_daysBetween (date 2021 9 2) (endOf_day (add_days 7 (date 2021 9 1)))
        (exclude_weekends test_coursePace) (selected_days_to_skip test_coursePace) [] = Some 5"
    by code_simp
  have "getItemsDurationFromTimeToComplete DateHelpers_addDays DateHelpers_daysBetween
        test_coursePace [] 7 3
     = Some \<lparr>items_duration = Num (5 div 3), items_remainder = Num (5 mod 3)\<rparr>"
    using getItemsDurationFromTimeToComplete_divides
      [where calendarDays = 7 and coursePace = test_coursePace
         and addDays = DateHelpers_addDays and daysBetween = DateHelpers_daysBetween
         and itemsLength = 3, OF _ start next_day not_after total]
    by simp
  then show ?thesis
    using start next_day not_after total by simp
qed

subsection \<open>The collaborators of the specification on the utilities' tests\<close>

text \<open>
  The count of \<open>DateHelpers_daysBetween\<close> is never negative, so the collaborator of the
  specification meets the hypothesis on \<open>E\<close> above.
\<close>

lemma DateHelpers_daysBetween_count:
  "\<exists>E. DateHelpers_daysBetween startDate endDate excludeWeekends selectedDaysToSkip blackoutDates
          = Some E \<and> 0 \<le> E"
  by (simp add: DateHelpers_daysBetween_def)

text \<open>
  The count is at most the number of days between the two dates, so for dates of JavaScript
  it stays below \<open>2 ^ 53\<close>, where the division of doubles is exact.
\<close>

lemma DateHelpers_daysBetween_bound:
  assumes "DateHelpers_daysBetween startDate endDate excludeWeekends selectedDaysToSkip
             blackoutDates = Some E"
  shows "E \<le> max 0 (day_of endDate - day_of startDate - 1)"
proof -
  have "length (filter
          (\<lambda>d. \<not> dayIsDisabled excludeWeekends selectedDaysToSkip blackoutDates (d * msPerDay))
          [day_of startDate + 1 .. day_of endDate - 1])
        \<le> length [day_of startDate + 1 .. day_of endDate - 1]"
    by (rule length_filter_le)
  with assms show ?thesis
    by (auto simp: DateHelpers_daysBetween_def)
qed

text \<open>
  With no items to divide among (\<^verbatim>\<open>itemsLength = 0\<close>) the function still returns; the
  fields are not finite numbers.
\<close>

lemma itemsLength_zero:
  "getItemsDurationFromTimeToComplete DateHelpers_addDays DateHelpers_daysBetween
     test_coursePace [] 7 0
   = Some \<lparr>items_duration = Infinity, items_remainder = NaN\<rparr>"
  by code_simp

text \<open>
  The expectations of the tests that come with the utilities, on the
  collaborators as modelled: the converter on 10 days, the weighting with and without an
  entry for pages, and the validator on the test pace (within the budget, budget of 4 days,
  weekends excluded, Mondays and Tuesdays skipped, a blackout on 2021-09-02 and 2021-09-03).
\<close>

lemma test_calendarDaysToPaceDuration:
  "calendarDaysToPaceDuration 10 = \<lparr>weeks = 1, days = 3\<rparr>"
  by (rule calendarDaysToPaceDuration_10)

lemma test_adds_the_right_duration:
  "map duration (calculatePaceItemDuration
      [\<lparr>item_id = ''1'', duration = 6, module_item_type = ''Assignment''\<rparr>,
       \<lparr>item_id = ''2'', duration = 6, module_item_type = ''DiscussionTopic''\<rparr>,
       \<lparr>item_id = ''3'', duration = 6, module_item_type = ''Quizzes::Quiz''\<rparr>,
       \<lparr>item_id = ''54'', duration = 6, module_item_type = ''Page''\<rparr>]
      \<lparr>assignment = Some 2, discussion = Some 3, quiz = Some 4, page = Some 1\<rparr>)
   = [2, 3, 4, 1]"
  by (simp add: calculatePaceItemDuration_def getDuration_def js_or_def)

lemma test_no_weighting_duration_for_page:
  "map duration (calculatePaceItemDuration
      [\<lparr>item_id = ''1'', duration = 6, module_item_type = ''Assignment''\<rparr>,
       \<lparr>item_id = ''2'', duration = 6, module_item_type = ''DiscussionTopic''\<rparr>,
       \<lparr>item_id = ''3'', duration = 6, module_item_type = ''Quizzes::Quiz''\<rparr>,
       \<lparr>item_id = ''54'', duration = 6, module_item_type = ''Page''\<rparr>]
      \<lparr>assignment = Some 2, discussion = Some 3, quiz = Some 4, page = None\<rparr>)
   = [2, 3, 4, 6]"
  by (simp add: calculatePaceItemDuration_def getDuration_def js_or_def)

lemma test_within_the_time_to_complete:
  "isTimeToCompleteCalendarDaysValid PaceDueDatesCalculator_getDueDates (date 2022 1 1)
     test_coursePace test_coursePaceItem [] = Some True"
  by code_simp

lemma test_exceeds_the_time_to_complete:
  "isTimeToCompleteCalendarDaysValid PaceDueDatesCalculator_getDueDates (date 2022 1 1)
     (test_coursePace\<lparr>time_to_complete_calendar_days := 4\<rparr>) test_coursePaceItem []
   = Some False"
  by code_simp

lemma test_exclude_weekends:
  "isTimeToCompleteCalendarDaysValid PaceDueDatesCalculator_getDueDates (date 2022 1 1)
     (test_coursePace\<lparr>exclude_weekends := True\<rparr>) test_coursePaceItem []
   = Some False"
  by code_simp

lemma test_selected_days_to_skip:
  "isTimeToCompleteCalendarDaysValid PaceDueDatesCalculator_getDueDates (date 2022 1 1)
     (test_coursePace\<lparr>selected_days_to_skip := [''mon'', ''tue'']\<rparr>) test_coursePaceItem []
   = Some False"
  by code_simp

lemma test_blackout_dates:
  "isTimeToCompleteCalendarDaysValid PaceDueDatesCalculator_getDueDates (date 2022 1 1)
     test_coursePace test_coursePaceItem
     [\<lparr>blackout_start_date = date 2021 9 2, blackout_end_date = date 2021 9 3\<rparr>]
   = Some False"
  by code_simp

end
